theory Spec2Isabelle
  imports Complex_Main
begin

section \<open>Resonance fit engine of \<^verbatim>\<open>figures/generate_figures.py\<close>\<close>

text \<open>
  The script's only computation is the curve fit of \<^verbatim>\<open>fig2_stochastic_resonance\<close>
  (source lines 113 to 134) and the model function \<^verbatim>\<open>stochastic_resonance_model\<close>
  (lines 52 to 57). Both are embedded here.

  Numbers. The source computes with numpy \<^verbatim>\<open>float64\<close> values. They are idealised:
  a finite value is a real number (no rounding, no overflow, no signed zero), and the
  three special values of IEEE arithmetic are kept, with numpy's rules for them, because
  the control flow of the source depends on them: numpy's division by zero does not
  raise, it yields \<open>inf\<close>, \<open>-inf\<close> or \<open>nan\<close> (with a warning), and every comparison
  with \<open>nan\<close> is false.
\<close>

subsection \<open>Idealised float64 values and the numpy operations the source uses\<close>

datatype npfloat = Finite real | PosInf | NegInf | NaN

text \<open>Unary minus, as in \<^verbatim>\<open>-b\<close>.\<close>

fun np_negative :: "npfloat \<Rightarrow> npfloat" where
  "np_negative (Finite x) = Finite (- x)"
| "np_negative PosInf = NegInf"
| "np_negative NegInf = PosInf"
| "np_negative NaN = NaN"

text \<open>Binary \<^verbatim>\<open>+\<close>: \<open>inf + (-inf)\<close> is \<open>nan\<close>.\<close>

fun np_add :: "npfloat \<Rightarrow> npfloat \<Rightarrow> npfloat" where
  "np_add NaN _ = NaN"
| "np_add _ NaN = NaN"
| "np_add (Finite x) (Finite y) = Finite (x + y)"
| "np_add (Finite _) PosInf = PosInf"
| "np_add (Finite _) NegInf = NegInf"
| "np_add PosInf (Finite _) = PosInf"
| "np_add NegInf (Finite _) = NegInf"
| "np_add PosInf PosInf = PosInf"
| "np_add NegInf NegInf = NegInf"
| "np_add PosInf NegInf = NaN"
| "np_add NegInf PosInf = NaN"

text \<open>Binary \<^verbatim>\<open>-\<close>.\<close>

definition np_subtract :: "npfloat \<Rightarrow> npfloat \<Rightarrow> npfloat" where
  "np_subtract x y = np_add x (np_negative y)"

text \<open>An infinity with the sign of a real number; \<open>nan\<close> for zero (\<open>0 * inf\<close>).\<close>

definition signed_inf :: "real \<Rightarrow> npfloat" where
  "signed_inf s = (if 0 < s then PosInf else if s < 0 then NegInf else NaN)"

text \<open>Binary \<^verbatim>\<open>*\<close>.\<close>

fun np_multiply :: "npfloat \<Rightarrow> npfloat \<Rightarrow> npfloat" where
  "np_multiply NaN _ = NaN"
| "np_multiply _ NaN = NaN"
| "np_multiply (Finite x) (Finite y) = Finite (x * y)"
| "np_multiply (Finite x) PosInf = signed_inf x"
| "np_multiply (Finite x) NegInf = signed_inf (- x)"
| "np_multiply PosInf (Finite y) = signed_inf y"
| "np_multiply NegInf (Finite y) = signed_inf (- y)"
| "np_multiply PosInf PosInf = PosInf"
| "np_multiply NegInf NegInf = PosInf"
| "np_multiply PosInf NegInf = NegInf"
| "np_multiply NegInf PosInf = NegInf"

text \<open>
  Binary \<^verbatim>\<open>/\<close> on numpy scalars. A zero divisor does not raise: \<open>0 / 0\<close> is \<open>nan\<close>
  and \<open>x / 0\<close> is an infinity with the sign of \<open>x\<close> (the zero divisors of the source
  are sums of squares and array lengths, hence \<open>+0.0\<close>).
\<close>

fun np_true_divide :: "npfloat \<Rightarrow> npfloat \<Rightarrow> npfloat" where
  "np_true_divide NaN _ = NaN"
| "np_true_divide _ NaN = NaN"
| "np_true_divide (Finite x) (Finite y) = (if y = 0 then signed_inf x else Finite (x / y))"
| "np_true_divide (Finite _) PosInf = Finite 0"
| "np_true_divide (Finite _) NegInf = Finite 0"
| "np_true_divide PosInf (Finite y) = (if 0 \<le> y then PosInf else NegInf)"
| "np_true_divide NegInf (Finite y) = (if 0 \<le> y then NegInf else PosInf)"
| "np_true_divide PosInf PosInf = NaN"
| "np_true_divide NegInf NegInf = NaN"
| "np_true_divide PosInf NegInf = NaN"
| "np_true_divide NegInf PosInf = NaN"

text \<open>\<^verbatim>\<open>x**2\<close>.\<close>

definition np_square :: "npfloat \<Rightarrow> npfloat" where
  "np_square x = np_multiply x x"

text \<open>\<^verbatim>\<open>np.exp\<close> and \<^verbatim>\<open>np.sqrt\<close>; the square root of a negative number is \<open>nan\<close>.\<close>

fun np_exp :: "npfloat \<Rightarrow> npfloat" where
  "np_exp (Finite x) = Finite (exp x)"
| "np_exp PosInf = PosInf"
| "np_exp NegInf = Finite 0"
| "np_exp NaN = NaN"

fun np_sqrt :: "npfloat \<Rightarrow> npfloat" where
  "np_sqrt (Finite x) = (if 0 \<le> x then Finite (sqrt x) else NaN)"
| "np_sqrt PosInf = PosInf"
| "np_sqrt NegInf = NaN"
| "np_sqrt NaN = NaN"

text \<open>The comparison \<^verbatim>\<open>x > y\<close>; false whenever an operand is \<open>nan\<close>.\<close>

fun np_greater :: "npfloat \<Rightarrow> npfloat \<Rightarrow> bool" where
  "np_greater NaN _ = False"
| "np_greater _ NaN = False"
| "np_greater (Finite x) (Finite y) = (y < x)"
| "np_greater PosInf PosInf = False"
| "np_greater PosInf _ = True"
| "np_greater _ PosInf = False"
| "np_greater NegInf _ = False"
| "np_greater (Finite _) NegInf = True"

text \<open>\<^verbatim>\<open>np.sum\<close> of a one-dimensional array (\<open>0.0\<close> for the empty array) and \<^verbatim>\<open>np.mean\<close>
  (the sum divided by the length: \<open>nan\<close> for the empty array).\<close>

fun np_sum :: "npfloat list \<Rightarrow> npfloat" where
  "np_sum [] = Finite 0"
| "np_sum (x # xs) = np_add x (np_sum xs)"

definition np_mean :: "npfloat list \<Rightarrow> npfloat" where
  "np_mean xs = np_true_divide (np_sum xs) (Finite (real (length xs)))"

subsection \<open>Exceptions and Python's built-in \<^verbatim>\<open>max\<close>\<close>

datatype py_exception = ValueError | TypeError | RuntimeError | KeyboardInterrupt

text \<open>
  \<^verbatim>\<open>max(phi_max)\<close> iterates over the array: it raises \<^verbatim>\<open>ValueError\<close> on an empty one and
  otherwise keeps the first element, replacing it by each later element that compares
  greater.
\<close>

fun py_max :: "npfloat list \<Rightarrow> py_exception + npfloat" where
  "py_max [] = Inl ValueError"
| "py_max (x # xs) = Inr (foldl (\<lambda>m y. if np_greater y m then y else m) x xs)"

subsection \<open>The model function (source lines 52 to 57)\<close>

text \<open>\<^verbatim>\<open>return a * epsilon * np.exp(-b * epsilon**2) + c\<close>, with Python's precedence:
  \<^verbatim>\<open>((a * epsilon) * np.exp((-b) * (epsilon**2))) + c\<close>.\<close>

definition stochastic_resonance_model ::
  "npfloat \<Rightarrow> npfloat \<Rightarrow> npfloat \<Rightarrow> npfloat \<Rightarrow> npfloat" where
  "stochastic_resonance_model epsilon a b c =
     np_add (np_multiply (np_multiply a epsilon)
                         (np_exp (np_multiply (np_negative b) (np_square epsilon)))) c"

subsection \<open>The fit (source lines 113 to 134)\<close>

text \<open>One record of the loaded result list, with the keys the script reads.\<close>

record result_entry =
  system_size :: string
  noise_level :: string
  noise_amplitude :: npfloat
  max_phi :: npfloat
  effective_neurons :: nat

text \<open>The six variables that the try/except statement binds and the plot consumes.\<close>

record fit_result =
  fit_a :: npfloat
  fit_b :: npfloat
  fit_c :: npfloat
  r_squared :: npfloat
  epsilon_opt :: npfloat
  phi_opt :: npfloat

text \<open>
  \<^verbatim>\<open>scipy.optimize.curve_fit\<close> is a library routine, not code of the script: it is a
  parameter of the model. It receives the model function, the two arrays, \<^verbatim>\<open>p0\<close> and
  \<^verbatim>\<open>maxfev\<close>, and either raises or returns \<^verbatim>\<open>(popt, pcov)\<close>, \<^verbatim>\<open>popt\<close> having the three
  entries of \<^verbatim>\<open>p0\<close>. Nothing is assumed about which of the two it does, nor about the
  values it returns.
\<close>

type_synonym params = "npfloat \<times> npfloat \<times> npfloat"

type_synonym 'cov curve_fit_routine =
  "(npfloat \<Rightarrow> npfloat \<Rightarrow> npfloat \<Rightarrow> npfloat \<Rightarrow> npfloat) \<Rightarrow> npfloat list \<Rightarrow> npfloat list
     \<Rightarrow> params \<Rightarrow> nat \<Rightarrow> py_exception + (params \<times> 'cov)"

definition xlarge_data :: "result_entry list \<Rightarrow> result_entry list" where
  "xlarge_data results = filter (\<lambda>r. system_size r = ''XLarge'') results"

definition noise_of :: "result_entry list \<Rightarrow> npfloat list" where
  "noise_of results = map noise_amplitude (xlarge_data results)"

definition phi_max_of :: "result_entry list \<Rightarrow> npfloat list" where
  "phi_max_of results = map max_phi (xlarge_data results)"

text \<open>
  The call of lines 118 and 119: the model function, the two arrays, the initial guess
  \<^verbatim>\<open>p0=[0.02, 0.02, 0.0]\<close> and \<^verbatim>\<open>maxfev=5000\<close>.
\<close>

definition curve_fit_call ::
  "'cov curve_fit_routine \<Rightarrow> npfloat list \<Rightarrow> npfloat list
     \<Rightarrow> py_exception + (params \<times> 'cov)" where
  "curve_fit_call curve_fit noise phi_max =
     curve_fit stochastic_resonance_model noise phi_max
       (Finite (2 / 100), Finite (2 / 100), Finite 0) 5000"

text \<open>
  The try/except statement. The bare \<^verbatim>\<open>except:\<close> catches whatever the call of
  \<^verbatim>\<open>curve_fit\<close> raises; the statements after the call are numpy arithmetic on arrays of
  equal length and do not raise. The handler itself is not guarded: an exception of
  \<^verbatim>\<open>max(phi_max)\<close> reaches the caller.
\<close>

definition fig2_fit :: "'cov curve_fit_routine \<Rightarrow> result_entry list \<Rightarrow> py_exception + fit_result" where
  "fig2_fit curve_fit results =
     (let noise = noise_of results;
          phi_max = phi_max_of results
      in case curve_fit_call curve_fit noise phi_max of
           Inr ((a, b, c), pcov) \<Rightarrow>
             (let residuals = map2 np_subtract phi_max
                                (map (\<lambda>e. stochastic_resonance_model e a b c) noise);
                  ss_res = np_sum (map np_square residuals);
                  ss_tot = np_sum (map (\<lambda>y. np_square (np_subtract y (np_mean phi_max))) phi_max);
                  r2 = np_subtract (Finite 1) (np_true_divide ss_res ss_tot);
                  eps = (if np_greater b (Finite 0)
                         then np_sqrt (np_true_divide (Finite 1) (np_multiply (Finite 2) b))
                         else Finite 5)
              in Inr \<lparr>fit_a = a, fit_b = b, fit_c = c, r_squared = r2, epsilon_opt = eps,
                      phi_opt = stochastic_resonance_model eps a b c\<rparr>)
         | Inl e \<Rightarrow>
             (case py_max phi_max of
                Inl e' \<Rightarrow> Inl e'
              | Inr m \<Rightarrow> Inr \<lparr>fit_a = Finite (2 / 100), fit_b = Finite (2 / 100), fit_c = Finite 0,
                              r_squared = Finite 0, epsilon_opt = Finite 5, phi_opt = m\<rparr>))"

subsection \<open>The quantities of the specification, over the reals\<close>

text \<open>The curve family \<open>f(x; a, b, c) = a x exp(- b x\<^sup>2) + c\<close>.\<close>

definition spec_f :: "real \<Rightarrow> real \<Rightarrow> real \<Rightarrow> real \<Rightarrow> real" where
  "spec_f x a b c = a * x * exp (- (b * x\<^sup>2)) + c"


text \<open>
  An observation set \<open>obs\<close> of real pairs \<open>(x, y)\<close> is what the script reads when the
  records of the \<^verbatim>\<open>XLarge\<close> cohort carry exactly these finite numbers, in this order.
\<close>

definition observes :: "result_entry list \<Rightarrow> (real \<times> real) list \<Rightarrow> bool" where
  "observes results obs \<longleftrightarrow>
     map (\<lambda>r. (noise_amplitude r, max_phi r)) (xlarge_data results)
       = map (\<lambda>(x, y). (Finite x, Finite y)) obs"

text \<open>\<open>SS_res\<close>, the mean response, and \<open>SS_tot\<close>, as the specification words them.\<close>

definition spec_ss_res :: "(real \<times> real) list \<Rightarrow> real \<Rightarrow> real \<Rightarrow> real \<Rightarrow> real" where
  "spec_ss_res obs a b c = (\<Sum>(x, y)\<leftarrow>obs. (y - spec_f x a b c)\<^sup>2)"

definition spec_mean :: "(real \<times> real) list \<Rightarrow> real" where
  "spec_mean obs = (\<Sum>(x, y)\<leftarrow>obs. y) / real (length obs)"

definition spec_ss_tot :: "(real \<times> real) list \<Rightarrow> real" where
  "spec_ss_tot obs = (\<Sum>(x, y)\<leftarrow>obs. (y - spec_mean obs)\<^sup>2)"


subsection \<open>Sample inputs\<close>

text \<open>A record of the result list with finite numbers, and stand-ins for the library
  routine: one that raises, one that returns given parameters, one that returns them only
  when called with the initial guess and the evaluation cap of the script, and one that
  rejects empty data as scipy does.\<close>

definition entry :: "string \<Rightarrow> real \<Rightarrow> real \<Rightarrow> result_entry" where
  "entry size_label x y =
     \<lparr>system_size = size_label, noise_level = ''Very High'', noise_amplitude = Finite x,
      max_phi = Finite y, effective_neurons = 729\<rparr>"

definition always_raises :: "py_exception \<Rightarrow> unit curve_fit_routine" where
  "always_raises e f xdata ydata p0 maxfev = Inl e"

definition always_returns :: "params \<Rightarrow> unit curve_fit_routine" where
  "always_returns popt f xdata ydata p0 maxfev = Inr (popt, ())"


definition rejects_empty :: "params \<Rightarrow> unit curve_fit_routine" where
  "rejects_empty popt f xdata ydata p0 maxfev =
     (if ydata = [] then Inl ValueError else Inr (popt, ()))"

section \<open>Properties\<close>

subsection \<open>Finite values\<close>

lemma model_Finite:
  "stochastic_resonance_model (Finite x) (Finite a) (Finite b) (Finite c) = Finite (spec_f x a b c)"
  by (simp add: stochastic_resonance_model_def spec_f_def np_square_def power2_eq_square)

lemma np_sum_Finite: "np_sum (map Finite xs) = Finite (sum_list xs)"
  by (induction xs) simp_all

lemma np_mean_Finite:
  "xs \<noteq> [] \<Longrightarrow> np_mean (map Finite xs) = Finite (sum_list xs / real (length xs))"
  by (simp add: np_mean_def np_sum_Finite)

lemma foldl_max_Finite:
  "foldl (\<lambda>m y. if np_greater y m then y else m) (Finite m) (map Finite ys)
     = Finite (fold max ys m)"
proof (induction ys arbitrary: m)
  case Nil
  show ?case by simp
next
  case (Cons y ys)
  have "(if m < y then y else m) = max y m" by (simp add: max_def)
  with Cons show ?case by (simp add: if_distrib [of Finite] cong: if_cong)
qed

lemma py_max_Finite:
  assumes "ys \<noteq> []"
  shows "py_max (map Finite ys) = Inr (Finite (Max (set ys)))"
proof -
  from assms obtain y ys' where ys: "ys = y # ys'" by (cases ys) auto
  have "py_max (map Finite ys) = Inr (Finite (fold max ys' y))"
    unfolding ys by (simp add: foldl_max_Finite)
  also have "fold max ys' y = Max (set ys)"
    unfolding ys by (rule Max.set_eq_fold [symmetric])
  finally show ?thesis .
qed

subsection \<open>What the script reads\<close>

lemma observes_noise: "observes results obs \<Longrightarrow> noise_of results = map (\<lambda>p. Finite (fst p)) obs"
proof -
  assume "observes results obs"
  then have "map fst (map (\<lambda>r. (noise_amplitude r, max_phi r)) (xlarge_data results))
               = map fst (map (\<lambda>(x, y). (Finite x, Finite y)) obs)"
    by (simp only: observes_def)
  then show ?thesis by (simp add: noise_of_def comp_def case_prod_beta)
qed

lemma observes_phi_max: "observes results obs \<Longrightarrow> phi_max_of results = map (\<lambda>p. Finite (snd p)) obs"
proof -
  assume "observes results obs"
  then have "map snd (map (\<lambda>r. (noise_amplitude r, max_phi r)) (xlarge_data results))
               = map snd (map (\<lambda>(x, y). (Finite x, Finite y)) obs)"
    by (simp only: observes_def)
  then show ?thesis by (simp add: phi_max_of_def comp_def case_prod_beta)
qed

lemma py_max_observed:
  assumes "observes results obs" and "obs \<noteq> []"
  shows "py_max (phi_max_of results) = Inr (Finite (Max (snd ` set obs)))"
proof -
  have "phi_max_of results = map Finite (map snd obs)"
    using assms(1) by (simp add: observes_phi_max comp_def)
  moreover have "map snd obs \<noteq> []" using assms(2) by simp
  ultimately show ?thesis
    using py_max_Finite [of "map snd obs"] by simp
qed

lemma py_max_nonempty: "xs \<noteq> [] \<Longrightarrow> \<exists>m. py_max xs = Inr m"
  by (cases xs) simp_all

subsection \<open>Identical responses\<close>


subsection \<open>The two branches of the try/except statement\<close>

lemma fig2_fit_except:
  assumes "curve_fit stochastic_resonance_model (noise_of results) (phi_max_of results)
             (Finite (2 / 100), Finite (2 / 100), Finite 0) 5000 = Inl e"
  shows "fig2_fit curve_fit results =
           (case py_max (phi_max_of results) of
              Inl e' \<Rightarrow> Inl e'
            | Inr m \<Rightarrow> Inr \<lparr>fit_a = Finite (2 / 100), fit_b = Finite (2 / 100), fit_c = Finite 0,
                            r_squared = Finite 0, epsilon_opt = Finite 5, phi_opt = m\<rparr>)"
  using assms by (simp add: fig2_fit_def curve_fit_call_def)

lemma fig2_fit_try:
  assumes "curve_fit stochastic_resonance_model (noise_of results) (phi_max_of results)
             (Finite (2 / 100), Finite (2 / 100), Finite 0) 5000 = Inr ((a, b, c), pcov)"
  shows "fig2_fit curve_fit results =
           Inr \<lparr>fit_a = a, fit_b = b, fit_c = c,
                r_squared = np_subtract (Finite 1)
                  (np_true_divide
                     (np_sum (map np_square (map2 np_subtract (phi_max_of results)
                        (map (\<lambda>e. stochastic_resonance_model e a b c) (noise_of results)))))
                     (np_sum (map (\<lambda>y. np_square (np_subtract y (np_mean (phi_max_of results))))
                        (phi_max_of results)))),
                epsilon_opt = (if np_greater b (Finite 0)
                               then np_sqrt (np_true_divide (Finite 1) (np_multiply (Finite 2) b))
                               else Finite 5),
                phi_opt = stochastic_resonance_model
                            (if np_greater b (Finite 0)
                             then np_sqrt (np_true_divide (Finite 1) (np_multiply (Finite 2) b))
                             else Finite 5) a b c\<rparr>"
  using assms by (simp add: fig2_fit_def curve_fit_call_def Let_def)

lemma ss_res_Finite:
  "np_sum (map np_square (map2 np_subtract (map (\<lambda>p. Finite (snd p)) obs)
      (map (\<lambda>e. stochastic_resonance_model e (Finite a) (Finite b) (Finite c))
         (map (\<lambda>p. Finite (fst p)) obs))))
     = Finite (spec_ss_res obs a b c)"
  by (induction obs)
     (simp_all add: spec_ss_res_def model_Finite np_square_def np_subtract_def
        power2_eq_square case_prod_beta)

lemma ss_tot_Finite_aux:
  "np_sum (map (\<lambda>y. np_square (np_subtract y (Finite m))) (map (\<lambda>p. Finite (snd p)) obs))
     = Finite (\<Sum>(x, y)\<leftarrow>obs. (y - m)\<^sup>2)"
  by (induction obs)
     (simp_all add: np_square_def np_subtract_def power2_eq_square case_prod_beta)

lemma ss_tot_Finite:
  "np_sum (map (\<lambda>y. np_square (np_subtract y (np_mean (map (\<lambda>p. Finite (snd p)) obs))))
      (map (\<lambda>p. Finite (snd p)) obs))
     = Finite (spec_ss_tot obs)"
proof (cases "obs = []")
  case True
  then show ?thesis by (simp add: spec_ss_tot_def)
next
  case False
  have "np_mean (map (\<lambda>p. Finite (snd p)) obs) = np_mean (map Finite (map snd obs))"
    by (simp add: comp_def)
  also have "\<dots> = Finite (sum_list (map snd obs) / real (length obs))"
    using False np_mean_Finite [of "map snd obs"] by simp
  also have "sum_list (map snd obs) / real (length obs) = spec_mean obs"
    by (simp add: spec_mean_def case_prod_unfold)
  finally have m: "np_mean (map (\<lambda>p. Finite (snd p)) obs) = Finite (spec_mean obs)" .
  show ?thesis
    unfolding m spec_ss_tot_def by (rule ss_tot_Finite_aux)
qed

subsection \<open>The claims\<close>

text \<open>
  C5. For all real \<open>x\<close>, \<open>a\<close>, \<open>b\<close>, \<open>c\<close> the model function of the script computes
  \<open>a x exp(- b x\<^sup>2) + c\<close>.
\<close>

theorem stochastic_resonance_model_formula:
  "stochastic_resonance_model (Finite x) (Finite a) (Finite b) (Finite c)
     = Finite (a * x * exp (- (b * x\<^sup>2)) + c)"
  by (simp add: stochastic_resonance_model_def np_square_def power2_eq_square)


text \<open>
  C1. For every non-empty observation set the fit returns a result with all six fields
  (parameters, \<open>R\<^sup>2\<close>, optimum location, optimum value) and raises nothing, whatever the
  minimization does: raise any exception, or return any parameters.
\<close>

theorem fit_returns_result_on_nonempty:
  assumes "xlarge_data results \<noteq> []"
  shows "\<exists>r. fig2_fit curve_fit results = Inr r"
proof (cases "curve_fit stochastic_resonance_model (noise_of results) (phi_max_of results)
                (Finite (2 / 100), Finite (2 / 100), Finite 0) 5000")
  case (Inl e)
  from assms have "phi_max_of results \<noteq> []" by (simp add: phi_max_of_def)
  then obtain m where "py_max (phi_max_of results) = Inr m"
    using py_max_nonempty by blast
  with fig2_fit_except [of curve_fit results e, OF Inl] show ?thesis by simp
next
  case (Inr p)
  obtain a b c pcov where "p = ((a, b, c), pcov)" by (cases p) auto
  with Inr fig2_fit_try [of curve_fit results a b c pcov] show ?thesis by simp
qed

theorem fit_returns_result_on_nonempty_witness:
  "xlarge_data [entry ''Small'' 0 3, entry ''XLarge'' 5 2] \<noteq> []
   \<and> (\<exists>r. fig2_fit (always_raises RuntimeError) [entry ''Small'' 0 3, entry ''XLarge'' 5 2] = Inr r)"
proof -
  have h: "xlarge_data [entry ''Small'' 0 3, entry ''XLarge'' 5 2] \<noteq> []"
    by (simp add: xlarge_data_def entry_def)
  show ?thesis
    using h fit_returns_result_on_nonempty [where curve_fit = "always_raises RuntimeError", OF h]
    by simp
qed

text \<open>
  C2. When the minimization raises, on a non-empty observation set, the fit returns the
  fallback: the initial guess \<open>(0.02, 0.02, 0.0)\<close> as parameters, \<open>R\<^sup>2 = 0\<close>, optimum
  location \<open>5.0\<close> and, as optimum value, the greatest observed response.
\<close>

theorem fallback_when_curve_fit_raises:
  assumes "observes results obs" and "obs \<noteq> []"
    and "curve_fit stochastic_resonance_model (noise_of results) (phi_max_of results)
           (Finite (2 / 100), Finite (2 / 100), Finite 0) 5000 = Inl e"
  shows "fig2_fit curve_fit results =
           Inr \<lparr>fit_a = Finite (2 / 100), fit_b = Finite (2 / 100), fit_c = Finite 0,
                r_squared = Finite 0, epsilon_opt = Finite 5,
                phi_opt = Finite (Max (snd ` set obs))\<rparr>"
  using fig2_fit_except [of curve_fit results e, OF assms(3)]
  by (simp add: py_max_observed [OF assms(1,2)])

theorem fallback_when_curve_fit_raises_witness:
  "observes [entry ''XLarge'' 0 1, entry ''Large'' 2 9, entry ''XLarge'' 5 4] [(0, 1), (5, 4)]
   \<and> [(0 :: real, 1 :: real), (5, 4)] \<noteq> []
   \<and> fig2_fit (always_raises RuntimeError)
        [entry ''XLarge'' 0 1, entry ''Large'' 2 9, entry ''XLarge'' 5 4] =
      Inr \<lparr>fit_a = Finite (2 / 100), fit_b = Finite (2 / 100), fit_c = Finite 0,
           r_squared = Finite 0, epsilon_opt = Finite 5, phi_opt = Finite 4\<rparr>"
proof -
  have h1: "observes [entry ''XLarge'' 0 1, entry ''Large'' 2 9, entry ''XLarge'' 5 4]
              [(0, 1), (5, 4)]"
    by (simp add: observes_def xlarge_data_def entry_def)
  have h2: "[(0 :: real, 1 :: real), (5, 4)] \<noteq> []" by simp
  have h3: "always_raises RuntimeError stochastic_resonance_model
              (noise_of [entry ''XLarge'' 0 1, entry ''Large'' 2 9, entry ''XLarge'' 5 4])
              (phi_max_of [entry ''XLarge'' 0 1, entry ''Large'' 2 9, entry ''XLarge'' 5 4])
              (Finite (2 / 100), Finite (2 / 100), Finite 0) 5000 = Inl RuntimeError"
    by (simp add: always_raises_def)
  show ?thesis
    using h1 h2
      fallback_when_curve_fit_raises [where curve_fit = "always_raises RuntimeError", OF h1 h2 h3]
    by simp
qed

text \<open>
  C3. When the minimization returns parameters with \<open>b > 0\<close>, the fit returns them, the
  optimum location is \<open>sqrt (1 / (2 b))\<close>, and the optimum value is the model function at
  that location with the returned parameters.
\<close>

theorem optimum_when_b_positive:
  assumes "curve_fit stochastic_resonance_model (noise_of results) (phi_max_of results)
             (Finite (2 / 100), Finite (2 / 100), Finite 0) 5000 = Inr ((a, Finite b, c), pcov)"
    and "0 < b"
  shows "\<exists>r. fig2_fit curve_fit results = Inr r
           \<and> fit_a r = a \<and> fit_b r = Finite b \<and> fit_c r = c
           \<and> epsilon_opt r = Finite (sqrt (1 / (2 * b)))
           \<and> phi_opt r = stochastic_resonance_model (epsilon_opt r) (fit_a r) (fit_b r) (fit_c r)"
  using assms(2) by (simp add: fig2_fit_try [of curve_fit results a "Finite b" c pcov, OF assms(1)])

theorem optimum_when_b_positive_witness:
  "always_returns (Finite 3, Finite (1 / 2), Finite 7) stochastic_resonance_model
      (noise_of [entry ''XLarge'' 0 1, entry ''XLarge'' 5 4])
      (phi_max_of [entry ''XLarge'' 0 1, entry ''XLarge'' 5 4])
      (Finite (2 / 100), Finite (2 / 100), Finite 0) 5000
     = Inr ((Finite 3, Finite (1 / 2), Finite 7), ())
   \<and> (0 :: real) < 1 / 2
   \<and> (\<exists>r. fig2_fit (always_returns (Finite 3, Finite (1 / 2), Finite 7))
              [entry ''XLarge'' 0 1, entry ''XLarge'' 5 4] = Inr r
          \<and> epsilon_opt r = Finite 1
          \<and> phi_opt r = Finite (3 * exp (- (1 / 2)) + 7))"
proof -
  have h1: "always_returns (Finite 3, Finite (1 / 2), Finite 7) stochastic_resonance_model
      (noise_of [entry ''XLarge'' 0 1, entry ''XLarge'' 5 4])
      (phi_max_of [entry ''XLarge'' 0 1, entry ''XLarge'' 5 4])
      (Finite (2 / 100), Finite (2 / 100), Finite 0) 5000
     = Inr ((Finite 3, Finite (1 / 2), Finite 7), ())"
    by (simp add: always_returns_def)
  have h2: "(0 :: real) < 1 / 2" by simp
  show ?thesis
    using h1 h2
      optimum_when_b_positive
        [where curve_fit = "always_returns (Finite 3, Finite (1 / 2), Finite 7)", OF h1 h2]
    by (auto simp: model_Finite spec_f_def)
qed



text \<open>
  C4. When the minimization returns finite parameters for a finite observation set, the
  returned goodness of fit is \<open>1 - SS_res / SS_tot\<close>, with \<open>SS_res\<close> the sum of the
  squared residuals and \<open>SS_tot\<close> the sum of the squared deviations from the mean response,
  the division being numpy's; for \<open>SS_tot \<noteq> 0\<close> it is that real number.
\<close>

theorem r_squared_of_returned_fit:
  assumes "observes results obs"
    and "curve_fit stochastic_resonance_model (noise_of results) (phi_max_of results)
           (Finite (2 / 100), Finite (2 / 100), Finite 0) 5000
           = Inr ((Finite a, Finite b, Finite c), pcov)"
  shows "\<exists>r. fig2_fit curve_fit results = Inr r
           \<and> r_squared r = np_subtract (Finite 1)
                 (np_true_divide (Finite (spec_ss_res obs a b c)) (Finite (spec_ss_tot obs)))
           \<and> (spec_ss_tot obs \<noteq> 0 \<longrightarrow>
                r_squared r = Finite (1 - spec_ss_res obs a b c / spec_ss_tot obs))"
proof -
  have n: "noise_of results = map (\<lambda>p. Finite (fst p)) obs"
    and y: "phi_max_of results = map (\<lambda>p. Finite (snd p)) obs"
    using assms(1) by (rule observes_noise, rule observes_phi_max)
  show ?thesis
    unfolding fig2_fit_try [of curve_fit results "Finite a" "Finite b" "Finite c" pcov, OF assms(2)]
      n y ss_res_Finite ss_tot_Finite
    by (simp add: np_subtract_def)
qed

theorem r_squared_of_returned_fit_witness:
  "observes [entry ''XLarge'' 0 1, entry ''XLarge'' 1 3] [(0, 1), (1, 3)]
   \<and> always_returns (Finite 0, Finite 0, Finite 1) stochastic_resonance_model
        (noise_of [entry ''XLarge'' 0 1, entry ''XLarge'' 1 3])
        (phi_max_of [entry ''XLarge'' 0 1, entry ''XLarge'' 1 3])
        (Finite (2 / 100), Finite (2 / 100), Finite 0) 5000
       = Inr ((Finite 0, Finite 0, Finite 1), ())
   \<and> spec_ss_tot [(0, 1), (1, 3)] \<noteq> 0
   \<and> (\<exists>r. fig2_fit (always_returns (Finite 0, Finite 0, Finite 1))
              [entry ''XLarge'' 0 1, entry ''XLarge'' 1 3] = Inr r
          \<and> r_squared r = Finite (- 1))"
proof -
  have h1: "observes [entry ''XLarge'' 0 1, entry ''XLarge'' 1 3] [(0, 1), (1, 3)]"
    by (simp add: observes_def xlarge_data_def entry_def)
  have h2: "always_returns (Finite 0, Finite 0, Finite 1) stochastic_resonance_model
        (noise_of [entry ''XLarge'' 0 1, entry ''XLarge'' 1 3])
        (phi_max_of [entry ''XLarge'' 0 1, entry ''XLarge'' 1 3])
        (Finite (2 / 100), Finite (2 / 100), Finite 0) 5000
       = Inr ((Finite 0, Finite 0, Finite 1), ())"
    by (simp add: always_returns_def)
  have tot: "spec_ss_tot [(0, 1), (1, 3)] = 2"
    by (simp add: spec_ss_tot_def spec_mean_def)
  have res: "spec_ss_res [(0, 1), (1, 3)] 0 0 1 = 4"
    by (simp add: spec_ss_res_def spec_f_def)
  show ?thesis
    using h1 h2 tot res
      r_squared_of_returned_fit
        [where curve_fit = "always_returns (Finite 0, Finite 0, Finite 1)", OF h1 h2]
    by auto
qed

text \<open>
  C6. When the minimization returns parameters with \<open>b \<le> 0\<close>, the fit does not fail: it
  returns a result whose optimum location is the constant \<open>5.0\<close>.
\<close>

theorem location_when_b_not_positive:
  assumes "curve_fit stochastic_resonance_model (noise_of results) (phi_max_of results)
             (Finite (2 / 100), Finite (2 / 100), Finite 0) 5000 = Inr ((a, Finite b, c), pcov)"
    and "b \<le> 0"
  shows "\<exists>r. fig2_fit curve_fit results = Inr r \<and> epsilon_opt r = Finite 5"
  using assms(2) by (simp add: fig2_fit_try [of curve_fit results a "Finite b" c pcov, OF assms(1)])

theorem location_when_b_not_positive_witness:
  "always_returns (Finite 3, Finite (- 1), Finite 7) stochastic_resonance_model
      (noise_of [entry ''XLarge'' 0 1, entry ''XLarge'' 5 4])
      (phi_max_of [entry ''XLarge'' 0 1, entry ''XLarge'' 5 4])
      (Finite (2 / 100), Finite (2 / 100), Finite 0) 5000
     = Inr ((Finite 3, Finite (- 1), Finite 7), ())
   \<and> (- 1 :: real) \<le> 0
   \<and> (\<exists>r. fig2_fit (always_returns (Finite 3, Finite (- 1), Finite 7))
              [entry ''XLarge'' 0 1, entry ''XLarge'' 5 4] = Inr r
          \<and> epsilon_opt r = Finite 5)"
proof -
  have h1: "always_returns (Finite 3, Finite (- 1), Finite 7) stochastic_resonance_model
      (noise_of [entry ''XLarge'' 0 1, entry ''XLarge'' 5 4])
      (phi_max_of [entry ''XLarge'' 0 1, entry ''XLarge'' 5 4])
      (Finite (2 / 100), Finite (2 / 100), Finite 0) 5000
     = Inr ((Finite 3, Finite (- 1), Finite 7), ())"
    by (simp add: always_returns_def)
  have h2: "(- 1 :: real) \<le> 0" by simp
  show ?thesis
    using h1 h2
      location_when_b_not_positive
        [where curve_fit = "always_returns (Finite 3, Finite (- 1), Finite 7)", OF h1 h2]
    by simp
qed

text \<open>
  C8. For an empty observation set no fallback result is made up. When the minimization
  rejects the empty arrays, as scipy's does, the handler's \<^verbatim>\<open>max(phi_max)\<close> raises
  \<^verbatim>\<open>ValueError\<close> and the fit raises it to its caller; and whatever the minimization does,
  a result that is returned does not have the \<open>R\<^sup>2 = 0\<close> of the fallback.
\<close>

theorem empty_observation_set_raises:
  assumes "xlarge_data results = []"
  shows "(curve_fit stochastic_resonance_model [] []
            (Finite (2 / 100), Finite (2 / 100), Finite 0) 5000 = Inl e
          \<longrightarrow> fig2_fit curve_fit results = Inl ValueError)
       \<and> (\<forall>r. fig2_fit curve_fit results = Inr r \<longrightarrow> r_squared r = NaN)"
proof -
  have n: "noise_of results = []" and y: "phi_max_of results = []"
    using assms by (simp_all add: noise_of_def phi_max_of_def)
  show ?thesis
  proof (cases "curve_fit stochastic_resonance_model [] []
                  (Finite (2 / 100), Finite (2 / 100), Finite 0) 5000")
    case (Inl e')
    then show ?thesis
      using fig2_fit_except [of curve_fit results e'] by (simp add: n y)
  next
    case (Inr p)
    obtain a b c pcov where "p = ((a, b, c), pcov)" by (cases p) auto
    with Inr show ?thesis
      using fig2_fit_try [of curve_fit results a b c pcov]
      by (simp add: n y np_subtract_def signed_inf_def)
  qed
qed

theorem empty_observation_set_raises_witness:
  "xlarge_data [entry ''Small'' 0 3] = []
   \<and> rejects_empty (Finite 1, Finite 1, Finite 1) stochastic_resonance_model [] []
        (Finite (2 / 100), Finite (2 / 100), Finite 0) 5000 = Inl ValueError
   \<and> fig2_fit (rejects_empty (Finite 1, Finite 1, Finite 1)) [entry ''Small'' 0 3]
       = Inl ValueError"
proof -
  have h: "xlarge_data [entry ''Small'' 0 3] = []"
    by (simp add: xlarge_data_def entry_def)
  have c: "rejects_empty (Finite 1, Finite 1, Finite 1) stochastic_resonance_model [] []
        (Finite (2 / 100), Finite (2 / 100), Finite 0) 5000 = Inl ValueError"
    by (simp add: rejects_empty_def)
  show ?thesis
    using h c
      empty_observation_set_raises
        [where curve_fit = "rejects_empty (Finite 1, Finite 1, Finite 1)" and e = ValueError, OF h]
    by simp
qed



text \<open>
  C10. On the same non-empty observation set both fallbacks put the optimum at \<open>5.0\<close>,
  with different rules for its value: when the minimization returns parameters with
  \<open>b \<le> 0\<close> the value is the model function at \<open>5.0\<close> with the returned parameters, and
  when the minimization raises it is the greatest observed response.
\<close>

theorem optimum_value_of_the_two_fallbacks:
  assumes "observes results obs" and "obs \<noteq> []"
    and "cf stochastic_resonance_model (noise_of results) (phi_max_of results)
           (Finite (2 / 100), Finite (2 / 100), Finite 0) 5000 = Inr ((a, Finite b, c), pcov)"
    and "b \<le> 0"
    and "cf' stochastic_resonance_model (noise_of results) (phi_max_of results)
           (Finite (2 / 100), Finite (2 / 100), Finite 0) 5000 = Inl e"
  shows "\<exists>r r'. fig2_fit cf results = Inr r \<and> fig2_fit cf' results = Inr r'
           \<and> epsilon_opt r = Finite 5 \<and> epsilon_opt r' = Finite 5
           \<and> phi_opt r = stochastic_resonance_model (Finite 5) a (Finite b) c
           \<and> phi_opt r' = Finite (Max (snd ` set obs))"
  using assms(4)
  by (simp add: fig2_fit_try [of cf results a "Finite b" c pcov, OF assms(3)]
        fig2_fit_except [of cf' results e, OF assms(5)] py_max_observed [OF assms(1,2)])

theorem optimum_value_of_the_two_fallbacks_witness:
  "observes [entry ''XLarge'' 0 1, entry ''XLarge'' 5 4] [(0, 1), (5, 4)]
   \<and> [(0 :: real, 1 :: real), (5, 4)] \<noteq> []
   \<and> always_returns (Finite 3, Finite 0, Finite 7) stochastic_resonance_model
        (noise_of [entry ''XLarge'' 0 1, entry ''XLarge'' 5 4])
        (phi_max_of [entry ''XLarge'' 0 1, entry ''XLarge'' 5 4])
        (Finite (2 / 100), Finite (2 / 100), Finite 0) 5000
       = Inr ((Finite 3, Finite 0, Finite 7), ())
   \<and> (0 :: real) \<le> 0
   \<and> always_raises RuntimeError stochastic_resonance_model
        (noise_of [entry ''XLarge'' 0 1, entry ''XLarge'' 5 4])
        (phi_max_of [entry ''XLarge'' 0 1, entry ''XLarge'' 5 4])
        (Finite (2 / 100), Finite (2 / 100), Finite 0) 5000 = Inl RuntimeError
   \<and> (\<exists>r r'. fig2_fit (always_returns (Finite 3, Finite 0, Finite 7))
                  [entry ''XLarge'' 0 1, entry ''XLarge'' 5 4] = Inr r
             \<and> fig2_fit (always_raises RuntimeError)
                  [entry ''XLarge'' 0 1, entry ''XLarge'' 5 4] = Inr r'
             \<and> epsilon_opt r = Finite 5 \<and> epsilon_opt r' = Finite 5
             \<and> phi_opt r = Finite 22 \<and> phi_opt r' = Finite 4)"
proof -
  have h1: "observes [entry ''XLarge'' 0 1, entry ''XLarge'' 5 4] [(0, 1), (5, 4)]"
    by (simp add: observes_def xlarge_data_def entry_def)
  have h2: "[(0 :: real, 1 :: real), (5, 4)] \<noteq> []" by simp
  have h3: "always_returns (Finite 3, Finite 0, Finite 7) stochastic_resonance_model
        (noise_of [entry ''XLarge'' 0 1, entry ''XLarge'' 5 4])
        (phi_max_of [entry ''XLarge'' 0 1, entry ''XLarge'' 5 4])
        (Finite (2 / 100), Finite (2 / 100), Finite 0) 5000
       = Inr ((Finite 3, Finite 0, Finite 7), ())"
    by (simp add: always_returns_def)
  have h4: "(0 :: real) \<le> 0" by simp
  have h5: "always_raises RuntimeError stochastic_resonance_model
        (noise_of [entry ''XLarge'' 0 1, entry ''XLarge'' 5 4])
        (phi_max_of [entry ''XLarge'' 0 1, entry ''XLarge'' 5 4])
        (Finite (2 / 100), Finite (2 / 100), Finite 0) 5000 = Inl RuntimeError"
    by (simp add: always_raises_def)
  show ?thesis
    using h1 h2 h3 h4 h5
      optimum_value_of_the_two_fallbacks
        [where cf = "always_returns (Finite 3, Finite 0, Finite 7)"
           and cf' = "always_raises RuntimeError", OF h1 h2 h3 h4 h5]
    by (auto simp: model_Finite spec_f_def)
qed




end
